theory Spec2Isabelle
  imports Main "HOL-Library.Sublist"
begin

section \<open>JavaScript values\<close>

text \<open>
  Strings are lists of code units; the model covers the code units below 256, one
  \<^typ>\<open>char\<close> each. A value of type \<open>string | undefined\<close> is a \<^typ>\<open>string option\<close>.

  A thrown value (a rejected promise) is either an \<open>Error\<close> object, with its name and its
  message, or some other value without a \<open>message\<close> property (not \<open>null\<close> or
  \<open>undefined\<close>), kept as the text it prints as. Every asynchronous function of the sources returns a result
  \<open>jsError + 'a\<close> (\<open>Inl\<close>: the promise rejects; \<open>Inr\<close>: it resolves) and the list of the
  effects it had on its collaborators, in the order they happened.
\<close>

datatype jsError = ErrorObj string string | Thrown string

text \<open>\<open>String(error)\<close>, as a template literal prints a thrown value.\<close>

fun errorToString :: "jsError \<Rightarrow> string" where
  "errorToString (ErrorObj name msg) =
     (if name = [] then msg else if msg = [] then name else name @ '': '' @ msg)"
| "errorToString (Thrown s) = s"

text \<open>\<open>error.message || error\<close>, printed.\<close>

fun errorMessageOf :: "jsError \<Rightarrow> string" where
  "errorMessageOf (ErrorObj name msg) =
     (if msg \<noteq> [] then msg else errorToString (ErrorObj name msg))"
| "errorMessageOf (Thrown s) = s"

text \<open>Truthiness of a \<open>string | undefined\<close>: defined and not empty.\<close>

fun truthy :: "string option \<Rightarrow> bool" where
  "truthy None = False"
| "truthy (Some s) = (s \<noteq> [])"

text \<open>\<open>String.prototype.trim\<close>: white space and line terminators, below code unit 256.\<close>

definition isWhiteSpace :: "char \<Rightarrow> bool" where
  "isWhiteSpace c =
     (c = CHR 0x09 \<or> c = CHR 0x0A \<or> c = CHR 0x0B \<or> c = CHR 0x0C \<or> c = CHR 0x0D
      \<or> c = CHR 0x20 \<or> c = CHR 0xA0)"

definition trim :: "string \<Rightarrow> string" where
  "trim s = rev (dropWhile isWhiteSpace (rev (dropWhile isWhiteSpace s)))"

text \<open>
  \<open>String.prototype.indexOf\<close>: the position of the first occurrence of \<open>sub\<close>, or \<open>-1\<close>.
\<close>

fun indexOfFrom :: "string \<Rightarrow> string \<Rightarrow> int \<Rightarrow> int" where
  "indexOfFrom [] sub i = (if sub = [] then i else - 1)"
| "indexOfFrom (c # cs) sub i =
     (if prefix sub (c # cs) then i else indexOfFrom cs sub (i + 1))"

definition indexOf :: "string \<Rightarrow> string \<Rightarrow> int" where
  "indexOf s sub = indexOfFrom s sub 0"

section \<open>Data model\<close>

text \<open>
  \<open>InterpreterType\<close> is declared in \<open>interpreter/contracts\<close>, which is not among the
  sources; the sources name its member \<open>Poetry\<close> only, and the other members stand
  behind \<open>OtherType\<close>.
\<close>

datatype interpreterType = Poetry | OtherType nat

text \<open>
  The interpreter record (\<open>PythonInterpreter\<close>, and \<open>Partial<PythonInterpreter>\<close> for what
  the helper returns): the fields the sources read or write, and the version as the
  metadata the record carries along. A property that is absent is \<open>None\<close>.
\<close>

record pythonInterpreter =
  path :: "string option"
  type :: "interpreterType option"
  version :: "string option"
  poetryWorkspaceFolder :: "string option"

text \<open>
  A \<open>Uri\<close> is an object (so it is truthy whenever it is there); a workspace folder
  carries its uri as a string.
\<close>

datatype uri = Uri string

record workspaceFolder =
  uri :: string

record execResult =
  stdout :: string
  stderr :: "string option"

section \<open>Collaborators and effects\<close>

text \<open>
  The process service that the factory creates: \<open>exec(file, args, {cwd})\<close> rejects, or
  resolves to a result (the sources guard against no result at all).
\<close>

record processService =
  exec :: "string \<Rightarrow> string list \<Rightarrow> string \<Rightarrow> jsError + execResult option"

text \<open>
  What \<open>PoetryService\<close> gets from its service container and from Node: the \<open>path\<close>
  module of the platform (\<open>sep\<close>, \<open>join\<close>, \<open>basename\<close>), the file system's existence check
  (it resolves to a boolean for every path), the process service factory, the configured \<open>poetryPath\<close>, the
  printed environment variables of the current process, the interpreter helper, and the
  workspace service.
\<close>

record services =
  pathSep :: string
  pathJoin :: "string list \<Rightarrow> string"
  pathBasename :: "string \<Rightarrow> string"
  fileExists :: "string \<Rightarrow> bool"
  processServiceFactoryCreate :: "string \<Rightarrow> jsError + processService"
  poetryPath :: string
  environmentVariables :: string
  getInterpreterInformation :: "string \<Rightarrow> jsError + pythonInterpreter option"
  getWorkspaceFolder :: "uri \<Rightarrow> workspaceFolder option"
  uriFsPath :: "string \<Rightarrow> string"
  workspaceRootPath :: "string option"

text \<open>The effects of a call, as its collaborators see them.\<close>

datatype event =
    FileExistsCall string
  | ProcessServiceCreate string
  | ExecCall string "string list" string
  | LogWarning string "jsError option"
  | TraceError string jsError
  | ShowMessage string string
  | GetInterpreterInformationCall string
  | HasInterpretersResolve bool

fun isExecCall :: "event \<Rightarrow> bool" where
  "isExecCall (ExecCall file args cwd) = True"
| "isExecCall _ = False"

fun isShowMessage :: "event \<Rightarrow> bool" where
  "isShowMessage (ShowMessage msg kind) = True"
| "isShowMessage _ = False"

section \<open>PoetryService\<close>

text \<open>\<open>get executable()\<close>\<close>

definition executable :: "services \<Rightarrow> string" where
  "executable sv = poetryPath sv"

text \<open>\<open>checkIfPoetryLockFileExists(cwd)\<close>\<close>

definition checkIfPoetryLockFileExists :: "services \<Rightarrow> string \<Rightarrow> (jsError + bool) \<times> event list" where
  "checkIfPoetryLockFileExists sv cwd =
     (let lock = pathJoin sv [cwd, ''poetry.lock''] in
      if fileExists sv lock then (Inr True, [FileExistsCall lock])
      else (Inr False, [FileExistsCall lock]))"

text \<open>
  The two warnings shown to the user: the one of \<open>invokePoetry\<close> puts the error message
  between single quotes, the one of \<open>getInterpreterPathFromPoetry\<close> does not.
\<close>

definition invokeFailedMessage :: "jsError \<Rightarrow> string" where
  "invokeFailedMessage error =
     ''Workspace contains pipfile but attempt to run '' @ [CHR 0x27] @ ''poetry env info -p''
       @ [CHR 0x27] @ '' failed with '' @ [CHR 0x27] @ errorMessageOf error @ [CHR 0x27]
       @ ''. Make sure poetry is on the PATH.''"

definition identificationFailedMessage :: "jsError \<Rightarrow> string" where
  "identificationFailedMessage error =
     ''Workspace contains pipfile but attempt to run '' @ [CHR 0x27] @ ''poetry env info -p''
       @ [CHR 0x27] @ '' failed with '' @ errorMessageOf error
       @ ''. Make sure poetry is on the PATH.''"

text \<open>
  The \<open>try\<close> block of \<open>invokePoetry(arg, rootPath)\<close>. The argument \<open>arg\<close> is not used: the
  arguments of the call are fixed.
\<close>

definition invokePoetry_try ::
  "services \<Rightarrow> string \<Rightarrow> string \<Rightarrow> (jsError + string option) \<times> event list" where
  "invokePoetry_try sv arg rootPath =
     (case processServiceFactoryCreate sv rootPath of
        Inl error \<Rightarrow> (Inl error, [ProcessServiceCreate rootPath])
      | Inr processService \<Rightarrow>
          (let execName = executable sv;
               called = [ProcessServiceCreate rootPath,
                         ExecCall execName [''env'', ''info'', ''-p''] rootPath] in
           case exec processService execName [''env'', ''info'', ''-p''] rootPath of
             Inl error \<Rightarrow> (Inl error, called)
           | Inr None \<Rightarrow> (Inr None, called)
           | Inr (Some result) \<Rightarrow>
               (let out = (if stdout result \<noteq> [] then trim (stdout result) else []);
                    err = (case stderr result of
                             None \<Rightarrow> []
                           | Some s \<Rightarrow> if s \<noteq> [] then trim s else []) in
                if length err > 0 \<and> length out = 0
                then (Inl (ErrorObj ''Error'' err), called)
                else (let pythonPath = pathJoin sv [trim (stdout result), ''bin'', ''python''] in
                      (Inr (Some pythonPath), called @ [LogWarning pythonPath None])))))"

text \<open>\<open>invokePoetry(arg, rootPath)\<close>: the \<open>try\<close> block and its \<open>catch\<close>.\<close>

definition invokePoetry ::
  "services \<Rightarrow> string \<Rightarrow> string \<Rightarrow> (jsError + string option) \<times> event list" where
  "invokePoetry sv arg rootPath =
     (case invokePoetry_try sv arg rootPath of
        (Inr pythonPath, t) \<Rightarrow> (Inr pythonPath, t)
      | (Inl error, t) \<Rightarrow>
          (Inr None,
           t @ [LogWarning ''Error in invoking Poetry'' (Some error),
                LogWarning (''Relevant Environment Variables '' @ environmentVariables sv) None,
                ShowMessage (invokeFailedMessage error) ''warning'']))"

text \<open>\<open>getInterpreterPathFromPoetry(cwd, ignoreErrors = false)\<close>\<close>

definition getInterpreterPathFromPoetry ::
  "services \<Rightarrow> string \<Rightarrow> bool \<Rightarrow> (jsError + string option) \<times> event list" where
  "getInterpreterPathFromPoetry sv cwd ignoreErrors =
     (case checkIfPoetryLockFileExists sv cwd of
        (Inl error, t0) \<Rightarrow> (Inl error, t0)
      | (Inr lockExists, t0) \<Rightarrow>
          if \<not> lockExists then (Inr None, t0)
          else
            (case invokePoetry sv ''env info -p'' cwd of
               (Inr pythonPath, t1) \<Rightarrow>
                 (case pythonPath of
                    None \<Rightarrow> (Inr None, t0 @ t1)
                  | Some p \<Rightarrow>
                      if p = [] then (Inr None, t0 @ t1)
                      else if fileExists sv p then (Inr (Some p), t0 @ t1 @ [FileExistsCall p])
                      else (Inr None, t0 @ t1 @ [FileExistsCall p]))
             | (Inl error, t1) \<Rightarrow>
                 if ignoreErrors
                 then (Inr None, t0 @ t1 @ [TraceError ''Poetry identification failed'' error])
                 else (Inr None,
                       t0 @ t1 @ [TraceError ''Poetry identification failed'' error,
                                  ShowMessage (identificationFailedMessage error) ''warning''])))"

text \<open>\<open>isRelatedPoetryEnvironment(dir, pythonPath)\<close>\<close>

definition isRelatedPoetryEnvironment ::
  "services \<Rightarrow> string \<Rightarrow> string \<Rightarrow> (jsError + bool) \<times> event list" where
  "isRelatedPoetryEnvironment sv dir pythonPath =
     (if indexOf pythonPath (pathSep sv @ pathBasename sv dir @ ''-'') = - 1
      then (Inr False, [])
      else
        (case getInterpreterPathFromPoetry sv dir True of
           (Inl error, t) \<Rightarrow> (Inl error, t)
         | (Inr envName, t) \<Rightarrow> (Inr (truthy envName), t)))"

text \<open>\<open>getInterpreterFromPoetry(poetryCwd)\<close>\<close>

definition getInterpreterFromPoetry ::
  "services \<Rightarrow> string \<Rightarrow> (jsError + pythonInterpreter option) \<times> event list" where
  "getInterpreterFromPoetry sv poetryCwd =
     (case getInterpreterPathFromPoetry sv poetryCwd False of
        (Inl error, t) \<Rightarrow> (Inl error, t)
      | (Inr interpreterPath, t) \<Rightarrow>
          (case interpreterPath of
             None \<Rightarrow> (Inr None, t)
           | Some p \<Rightarrow>
               if p = [] then (Inr None, t)
               else
                 (case getInterpreterInformation sv p of
                    Inl error \<Rightarrow> (Inl error, t @ [GetInterpreterInformationCall p])
                  | Inr None \<Rightarrow> (Inr None, t @ [GetInterpreterInformationCall p])
                  | Inr (Some details) \<Rightarrow>
                      (Inr (Some (details
                                   \<lparr>path := Some p,
                                    type := Some Poetry,
                                    poetryWorkspaceFolder := Some poetryCwd\<rparr>)),
                       t @ [GetInterpreterInformationCall p, HasInterpretersResolve True]))))"

text \<open>\<open>getPoetryWorkingDirectory(resource?)\<close>\<close>

definition getPoetryWorkingDirectory :: "services \<Rightarrow> uri option \<Rightarrow> string option" where
  "getPoetryWorkingDirectory sv resource =
     (let wsFolder = (case resource of
                        None \<Rightarrow> None
                      | Some r \<Rightarrow> getWorkspaceFolder sv r) in
      case wsFolder of
        Some folder \<Rightarrow> Some (uriFsPath sv (uri folder))
      | None \<Rightarrow> workspaceRootPath sv)"

text \<open>\<open>getInterpretersImplementation(resource?)\<close>\<close>

definition getInterpretersImplementation ::
  "services \<Rightarrow> uri option \<Rightarrow> (jsError + pythonInterpreter list) \<times> event list" where
  "getInterpretersImplementation sv resource =
     (case getPoetryWorkingDirectory sv resource of
        None \<Rightarrow> (Inr [], [])
      | Some poetryCwd \<Rightarrow>
          if poetryCwd = [] then (Inr [], [])
          else
            (case getInterpreterFromPoetry sv poetryCwd of
               (Inr item, t) \<Rightarrow> (Inr (case item of Some i \<Rightarrow> [i] | None \<Rightarrow> []), t)
             | (Inl error, t) \<Rightarrow> (Inr [], t)))"

section \<open>PoetryActivationCommandProvider\<close>

text \<open>
  The provider's collaborators: the interpreter service (each lookup rejects, finds
  nothing, or finds an interpreter), the poetry service, and \<open>fileToCommandArgument\<close> of
  \<open>common/string\<close>, which is not among the sources.
\<close>

record provider =
  getActiveInterpreter :: "uri option \<Rightarrow> jsError + pythonInterpreter option"
  getInterpreterDetails :: "string \<Rightarrow> jsError + pythonInterpreter option"
  poetryService :: services
  fileToCommandArgument :: "string \<Rightarrow> string"

text \<open>\<open>isShellSupported(_targetShell)\<close>\<close>

definition isShellSupported :: "provider \<Rightarrow> 'shell \<Rightarrow> bool" where
  "isShellSupported pr targetShell = False"

text \<open>\<open>getActivationCommands(resource, _)\<close>\<close>

definition getActivationCommands ::
  "provider \<Rightarrow> uri option \<Rightarrow> 'shell \<Rightarrow> jsError + string list option" where
  "getActivationCommands pr resource sh =
     (case getActiveInterpreter pr resource of
        Inl error \<Rightarrow> Inl error
      | Inr None \<Rightarrow> Inr None
      | Inr (Some interpreter) \<Rightarrow>
          if type interpreter \<noteq> Some Poetry then Inr None
          else (let execName = executable (poetryService pr) in
                Inr (Some [fileToCommandArgument pr execName @ '' shell''])))"

text \<open>\<open>getActivationCommandsForInterpreter(pythonPath, _targetShell)\<close>\<close>

definition getActivationCommandsForInterpreter ::
  "provider \<Rightarrow> string \<Rightarrow> 'shell \<Rightarrow> jsError + string list option" where
  "getActivationCommandsForInterpreter pr pythonPath targetShell =
     (case getInterpreterDetails pr pythonPath of
        Inl error \<Rightarrow> Inl error
      | Inr None \<Rightarrow> Inr None
      | Inr (Some interpreter) \<Rightarrow>
          if type interpreter \<noteq> Some Poetry then Inr None
          else (let execName = executable (poetryService pr) in
                Inr (Some [fileToCommandArgument pr execName @ '' shell''])))"

section \<open>A sample installation\<close>

text \<open>
  A POSIX machine with one project, \<open>/work/proj\<close>, whose virtual environment poetry
  reports as \<open>/venvs/proj-x1-py3.8\<close>. The path functions below are those of POSIX on
  paths that are already normal. Three process services: one where poetry answers, one
  where it prints to stderr only, one where the executable is missing.
\<close>

definition posixJoin :: "string list \<Rightarrow> string" where
  "posixJoin parts = foldr (\<lambda>a b. if b = [] then a else a @ ''/'' @ b) parts []"

definition posixBasename :: "string \<Rightarrow> string" where
  "posixBasename p = rev (takeWhile (\<lambda>c. c \<noteq> CHR ''/'') (rev p))"

definition answeringProcess :: processService where
  "answeringProcess =
     \<lparr>exec = (\<lambda>file args cwd.
        Inr (Some \<lparr>stdout = ''/venvs/proj-x1-py3.8'' @ [CHR 0x0A], stderr = None\<rparr>))\<rparr>"

definition complainingProcess :: processService where
  "complainingProcess =
     \<lparr>exec = (\<lambda>file args cwd.
        Inr (Some \<lparr>stdout = [], stderr = Some (''no pyproject.toml'' @ [CHR 0x0A])\<rparr>))\<rparr>"

definition missingProcess :: processService where
  "missingProcess =
     \<lparr>exec = (\<lambda>file args cwd. Inl (ErrorObj ''Error'' ''spawn poetry ENOENT''))\<rparr>"

definition sampleInformation :: pythonInterpreter where
  "sampleInformation =
     \<lparr>path = None, type = None, version = Some ''3.8.2'', poetryWorkspaceFolder = None\<rparr>"

definition sampleServices :: "processService \<Rightarrow> services" where
  "sampleServices ps =
     \<lparr>pathSep = ''/'',
      pathJoin = posixJoin,
      pathBasename = posixBasename,
      fileExists = (\<lambda>p. p = ''/work/proj/poetry.lock'' \<or> p = ''/venvs/proj-x1-py3.8/bin/python''),
      processServiceFactoryCreate = (\<lambda>root. Inr ps),
      poetryPath = ''poetry'',
      environmentVariables = ''{}'',
      getInterpreterInformation = (\<lambda>p. Inr (Some sampleInformation)),
      getWorkspaceFolder = (\<lambda>r. None),
      uriFsPath = (\<lambda>s. s),
      workspaceRootPath = Some ''/work/proj''\<rparr>"

text \<open>The same machine with a helper that fails, and with no workspace open.\<close>

definition helplessServices :: services where
  "helplessServices =
     (sampleServices answeringProcess)
       \<lparr>getInterpreterInformation := (\<lambda>p. Inl (ErrorObj ''Error'' ''python exited with code 1''))\<rparr>"

definition uninformedServices :: services where
  "uninformedServices =
     (sampleServices answeringProcess)\<lparr>getInterpreterInformation := (\<lambda>p. Inr None)\<rparr>"

definition homelessServices :: services where
  "homelessServices = (sampleServices answeringProcess)\<lparr>workspaceRootPath := None\<rparr>"

definition sampleProvider :: provider where
  "sampleProvider =
     \<lparr>getActiveInterpreter = (\<lambda>r. case r of
          None \<Rightarrow> Inr (Some (sampleInformation\<lparr>type := Some Poetry\<rparr>))
        | Some u \<Rightarrow>
            if u = Uri ''file:///usr/lib/a.py''
            then Inr (Some (sampleInformation\<lparr>type := Some (OtherType 0)\<rparr>))
            else Inr None),
      getInterpreterDetails = (\<lambda>p.
          if p = ''/venvs/proj-x1-py3.8/bin/python''
          then Inr (Some (sampleInformation\<lparr>type := Some Poetry\<rparr>))
          else if p = ''/usr/bin/python''
          then Inr (Some (sampleInformation\<lparr>type := Some (OtherType 0)\<rparr>))
          else Inr None),
      poetryService = sampleServices answeringProcess,
      fileToCommandArgument = (\<lambda>s. s)\<rparr>"

section \<open>Facts about the JavaScript values\<close>

lemma trim_Nil: "trim [] = []"
  by (simp add: trim_def)

lemma truthy_iff: "truthy x = (\<exists>p. x = Some p \<and> p \<noteq> [])"
  by (cases x) simp_all

text \<open>\<open>indexOf\<close> answers \<open>-1\<close> exactly when the text does not occur.\<close>

lemma indexOfFrom_sublist: "0 \<le> i \<Longrightarrow> (indexOfFrom s sub i = - 1) = (\<not> sublist sub s)"
proof (induction s arbitrary: i)
  case Nil
  then show ?case by auto
next
  case (Cons c cs)
  show ?case
  proof (cases "prefix sub (c # cs)")
    case True
    with Cons.prems show ?thesis by (auto simp: sublist_Cons_right)
  next
    case False
    with Cons.IH [of "i + 1"] Cons.prems show ?thesis by (simp add: sublist_Cons_right)
  qed
qed

lemma indexOf_sublist: "(indexOf s sub = - 1) = (\<not> sublist sub s)"
  by (simp add: indexOf_def indexOfFrom_sublist)

section \<open>Facts about \<open>invokePoetry\<close>\<close>

text \<open>The \<open>catch\<close> of \<open>invokePoetry\<close> takes every error of its \<open>try\<close> block: it never rejects.\<close>

lemma invokePoetry_resolves: "\<exists>r. fst (invokePoetry sv arg root) = Inr r"
  by (auto simp: invokePoetry_def split: prod.splits sum.splits)

lemma invokePoetry_exec_count:
  "length (filter isExecCall (snd (invokePoetry sv arg root))) \<le> 1"
  by (auto simp: invokePoetry_def invokePoetry_try_def Let_def
           split: prod.splits sum.splits option.splits if_splits)

lemma invokePoetry_show_count:
  "length (filter isShowMessage (snd (invokePoetry sv arg root))) \<le> 1"
  by (auto simp: invokePoetry_def invokePoetry_try_def Let_def
           split: prod.splits sum.splits option.splits if_splits)

lemma invokePoetry_Some_exec:
  "fst (invokePoetry sv arg root) = Inr (Some p) \<Longrightarrow>
     ExecCall (poetryPath sv) [''env'', ''info'', ''-p''] root
       \<in> set (snd (invokePoetry sv arg root))"
  by (auto simp: invokePoetry_def invokePoetry_try_def Let_def executable_def
           split: prod.splits sum.splits option.splits if_splits)

text \<open>
  The two failures of the executable: \<open>exec\<close> rejects with \<open>error\<close>, or it resolves to a
  result with text on stderr and none on stdout, which the \<open>try\<close> block turns into
  \<open>new Error(stderr)\<close>. Either way the \<open>catch\<close> logs twice and warns the user.
\<close>

lemma invokePoetry_failure:
  assumes "processServiceFactoryCreate sv root = Inr ps"
    and "exec ps (poetryPath sv) [''env'', ''info'', ''-p''] root = Inl error
         \<or> (exec ps (poetryPath sv) [''env'', ''info'', ''-p''] root = Inr (Some r)
             \<and> stderr r = Some s \<and> trim s \<noteq> [] \<and> trim (stdout r) = []
             \<and> error = ErrorObj ''Error'' (trim s))"
  shows "invokePoetry sv arg root =
           (Inr None,
            [ProcessServiceCreate root,
             ExecCall (poetryPath sv) [''env'', ''info'', ''-p''] root,
             LogWarning ''Error in invoking Poetry'' (Some error),
             LogWarning (''Relevant Environment Variables '' @ environmentVariables sv) None,
             ShowMessage (invokeFailedMessage error) ''warning''])"
  using assms
  by (auto simp: invokePoetry_def invokePoetry_try_def executable_def Let_def trim_Nil)

section \<open>Facts about \<open>getInterpreterPathFromPoetry\<close>\<close>

lemma lookup_unlocked:
  "\<not> fileExists sv (pathJoin sv [cwd, ''poetry.lock'']) \<Longrightarrow>
     getInterpreterPathFromPoetry sv cwd ig =
       (Inr None, [FileExistsCall (pathJoin sv [cwd, ''poetry.lock''])])"
  by (simp add: getInterpreterPathFromPoetry_def checkIfPoetryLockFileExists_def Let_def)

lemma lookup_locked:
  "fileExists sv (pathJoin sv [cwd, ''poetry.lock'']) \<Longrightarrow>
     getInterpreterPathFromPoetry sv cwd ig =
       (case fst (invokePoetry sv ''env info -p'' cwd) of
          Inr (Some p) \<Rightarrow>
            if p = []
            then (Inr None,
                  FileExistsCall (pathJoin sv [cwd, ''poetry.lock''])
                    # snd (invokePoetry sv ''env info -p'' cwd))
            else (Inr (if fileExists sv p then Some p else None),
                  FileExistsCall (pathJoin sv [cwd, ''poetry.lock''])
                    # snd (invokePoetry sv ''env info -p'' cwd) @ [FileExistsCall p])
        | _ \<Rightarrow> (Inr None,
                FileExistsCall (pathJoin sv [cwd, ''poetry.lock''])
                  # snd (invokePoetry sv ''env info -p'' cwd)))"
  using invokePoetry_resolves [of sv "''env info -p''" cwd]
  by (auto simp: getInterpreterPathFromPoetry_def checkIfPoetryLockFileExists_def Let_def
           split: prod.splits sum.splits option.splits)

section \<open>The sample installation, run\<close>

lemmas sample_defs =
  sampleServices_def answeringProcess_def complainingProcess_def missingProcess_def
  sampleInformation_def sampleProvider_def posixJoin_def posixBasename_def

lemmas service_defs =
  getInterpreterPathFromPoetry_def checkIfPoetryLockFileExists_def invokePoetry_def
  invokePoetry_try_def executable_def trim_def isWhiteSpace_def Let_def

lemma sample_poetryPath: "poetryPath (sampleServices ps) = ''poetry''"
  by (simp add: sampleServices_def)

lemma sample_create: "processServiceFactoryCreate (sampleServices ps) root = Inr ps"
  by (simp add: sampleServices_def)

lemma sample_lock:
  "pathJoin (sampleServices ps) [''/work/other'', ''poetry.lock''] = ''/work/other/poetry.lock''"
  "pathJoin (sampleServices ps) [''/work/proj'', ''poetry.lock''] = ''/work/proj/poetry.lock''"
  by (simp_all add: sampleServices_def posixJoin_def)

lemma sample_fileExists:
  "fileExists (sampleServices ps) p =
     (p = ''/work/proj/poetry.lock'' \<or> p = ''/venvs/proj-x1-py3.8/bin/python'')"
  by (simp add: sampleServices_def)

lemma sample_environmentVariables: "environmentVariables (sampleServices ps) = ''{}''"
  by (simp add: sampleServices_def)

lemma sample_invoke:
  "invokePoetry (sampleServices answeringProcess) arg ''/work/proj'' =
     (Inr (Some ''/venvs/proj-x1-py3.8/bin/python''),
      [ProcessServiceCreate ''/work/proj'',
       ExecCall ''poetry'' [''env'', ''info'', ''-p''] ''/work/proj'',
       LogWarning ''/venvs/proj-x1-py3.8/bin/python'' None])"
  by (simp add: service_defs sample_defs)

lemma sample_lookup:
  "getInterpreterPathFromPoetry (sampleServices answeringProcess) ''/work/proj'' ig =
     (Inr (Some ''/venvs/proj-x1-py3.8/bin/python''),
      [FileExistsCall ''/work/proj/poetry.lock'',
       ProcessServiceCreate ''/work/proj'',
       ExecCall ''poetry'' [''env'', ''info'', ''-p''] ''/work/proj'',
       LogWarning ''/venvs/proj-x1-py3.8/bin/python'' None,
       FileExistsCall ''/venvs/proj-x1-py3.8/bin/python''])"
  by (simp add: service_defs sample_defs)

lemma sample_lookup_elsewhere:
  "getInterpreterPathFromPoetry (sampleServices answeringProcess) ''/work/other'' ig =
     (Inr None, [FileExistsCall ''/work/other/poetry.lock''])"
  by (simp add: service_defs sample_defs)

lemma sample_lookup_complaining:
  "getInterpreterPathFromPoetry (sampleServices complainingProcess) ''/work/proj'' ig =
     (Inr None,
      [FileExistsCall ''/work/proj/poetry.lock'',
       ProcessServiceCreate ''/work/proj'',
       ExecCall ''poetry'' [''env'', ''info'', ''-p''] ''/work/proj'',
       LogWarning ''Error in invoking Poetry'' (Some (ErrorObj ''Error'' ''no pyproject.toml'')),
       LogWarning ''Relevant Environment Variables {}'' None,
       ShowMessage (invokeFailedMessage (ErrorObj ''Error'' ''no pyproject.toml'')) ''warning''])"
  by (simp add: service_defs sample_defs)

lemma sample_lookup_missing:
  "getInterpreterPathFromPoetry (sampleServices missingProcess) ''/work/proj'' ig =
     (Inr None,
      [FileExistsCall ''/work/proj/poetry.lock'',
       ProcessServiceCreate ''/work/proj'',
       ExecCall ''poetry'' [''env'', ''info'', ''-p''] ''/work/proj'',
       LogWarning ''Error in invoking Poetry'' (Some (ErrorObj ''Error'' ''spawn poetry ENOENT'')),
       LogWarning ''Relevant Environment Variables {}'' None,
       ShowMessage (invokeFailedMessage (ErrorObj ''Error'' ''spawn poetry ENOENT'')) ''warning''])"
  by (simp add: service_defs sample_defs)

lemma sample_information: "getInterpreterInformation (sampleServices ps) p = Inr (Some sampleInformation)"
  by (simp add: sampleServices_def)

lemma sample_workingDirectory:
  "getPoetryWorkingDirectory (sampleServices ps) None = Some ''/work/proj''"
  by (simp add: getPoetryWorkingDirectory_def sampleServices_def)

lemma sample_interpreter:
  "getInterpreterFromPoetry (sampleServices answeringProcess) ''/work/proj'' =
     (Inr (Some \<lparr>path = Some ''/venvs/proj-x1-py3.8/bin/python'', type = Some Poetry,
                  version = Some ''3.8.2'', poetryWorkspaceFolder = Some ''/work/proj''\<rparr>),
      [FileExistsCall ''/work/proj/poetry.lock'',
       ProcessServiceCreate ''/work/proj'',
       ExecCall ''poetry'' [''env'', ''info'', ''-p''] ''/work/proj'',
       LogWarning ''/venvs/proj-x1-py3.8/bin/python'' None,
       FileExistsCall ''/venvs/proj-x1-py3.8/bin/python'',
       GetInterpreterInformationCall ''/venvs/proj-x1-py3.8/bin/python'',
       HasInterpretersResolve True])"
  by (simp add: getInterpreterFromPoetry_def sample_lookup sample_information sampleInformation_def)

lemma sample_interpreter_complaining:
  "fst (getInterpreterFromPoetry (sampleServices complainingProcess) ''/work/proj'') = Inr None"
  by (simp add: getInterpreterFromPoetry_def sample_lookup_complaining)

lemma sample_uninformed_lookup:
  "getInterpreterPathFromPoetry uninformedServices ''/work/proj'' ig =
     getInterpreterPathFromPoetry (sampleServices answeringProcess) ''/work/proj'' ig"
  by (simp add: service_defs uninformedServices_def sample_defs)

lemma sample_uninformed_information: "getInterpreterInformation uninformedServices p = Inr None"
  by (simp add: uninformedServices_def)

lemma sample_helpless_lookup:
  "getInterpreterPathFromPoetry helplessServices ''/work/proj'' ig =
     getInterpreterPathFromPoetry (sampleServices answeringProcess) ''/work/proj'' ig"
  by (simp add: service_defs helplessServices_def sample_defs)

lemma sample_helpless_information:
  "getInterpreterInformation helplessServices p = Inl (ErrorObj ''Error'' ''python exited with code 1'')"
  by (simp add: helplessServices_def)

lemma sample_helpless:
  "fst (getInterpreterFromPoetry helplessServices ''/work/proj'')
     = Inl (ErrorObj ''Error'' ''python exited with code 1'')"
  by (simp add: getInterpreterFromPoetry_def sample_helpless_lookup sample_lookup
                sample_helpless_information)

lemma sample_helpless_workingDirectory:
  "getPoetryWorkingDirectory helplessServices None = Some ''/work/proj''"
  by (simp add: getPoetryWorkingDirectory_def helplessServices_def sampleServices_def)

lemma sample_homeless_workingDirectory:
  "getPoetryWorkingDirectory homelessServices None = None"
  by (simp add: getPoetryWorkingDirectory_def homelessServices_def sampleServices_def)

lemma sample_related_text:
  "pathSep (sampleServices ps) @ pathBasename (sampleServices ps) ''/work/proj'' @ ''-'' = ''/proj-''"
  by (simp add: sampleServices_def posixBasename_def)

lemma sample_indexOf:
  "indexOf ''/usr/bin/python'' ''/proj-'' = - 1"
  "indexOf ''/venvs/proj-x1-py3.8/bin/python'' ''/proj-'' = 6"
  by (simp_all add: indexOf_def)

section \<open>The lookup of the interpreter path\<close>

text \<open>
  C1. For every working directory, \<open>getInterpreterPathFromPoetry\<close> resolves to a path
  exactly when the external poetry invocation succeeds and that path exists on the file
  system: the executable is run in this lookup, \<open>invokePoetry\<close> returns the path (a
  string that is not empty, as the code tests it), and the file system has it. In every
  other case it resolves to \<open>undefined\<close>; it never rejects.
\<close>

theorem getInterpreterPathFromPoetry_defined_iff:
  "(fst (getInterpreterPathFromPoetry sv cwd ignoreErrors) = Inr (Some p) \<longleftrightarrow>
      ExecCall (poetryPath sv) [''env'', ''info'', ''-p''] cwd
        \<in> set (snd (getInterpreterPathFromPoetry sv cwd ignoreErrors))
      \<and> fst (invokePoetry sv ''env info -p'' cwd) = Inr (Some p)
      \<and> p \<noteq> [] \<and> fileExists sv p)
   \<and> ((\<forall>q. fst (getInterpreterPathFromPoetry sv cwd ignoreErrors) \<noteq> Inr (Some q)) \<longrightarrow>
        fst (getInterpreterPathFromPoetry sv cwd ignoreErrors) = Inr None)"
proof (cases "fileExists sv (pathJoin sv [cwd, ''poetry.lock''])")
  case False
  then show ?thesis by (simp add: lookup_unlocked)
next
  case True
  show ?thesis
    using invokePoetry_Some_exec [of sv "''env info -p''" cwd p]
    by (auto simp: lookup_locked [OF True] split: sum.splits option.splits if_splits)
qed

theorem getInterpreterPathFromPoetry_defined_iff_witness:
  "ExecCall ''poetry'' [''env'', ''info'', ''-p''] ''/work/proj''
     \<in> set (snd (getInterpreterPathFromPoetry (sampleServices answeringProcess) ''/work/proj'' False))
   \<and> fst (invokePoetry (sampleServices answeringProcess) ''env info -p'' ''/work/proj'')
       = Inr (Some ''/venvs/proj-x1-py3.8/bin/python'')
   \<and> fileExists (sampleServices answeringProcess) ''/venvs/proj-x1-py3.8/bin/python''
   \<and> fst (getInterpreterPathFromPoetry (sampleServices answeringProcess) ''/work/proj'' False)
       = Inr (Some ''/venvs/proj-x1-py3.8/bin/python'')
   \<and> (\<forall>q. fst (getInterpreterPathFromPoetry (sampleServices answeringProcess) ''/work/other'' False)
            \<noteq> Inr (Some q))
   \<and> fst (getInterpreterPathFromPoetry (sampleServices answeringProcess) ''/work/other'' False)
       = Inr None"
proof -
  let ?S = "sampleServices answeringProcess"
  let ?P = "''/venvs/proj-x1-py3.8/bin/python''"
  have a: "ExecCall (poetryPath ?S) [''env'', ''info'', ''-p''] ''/work/proj''
             \<in> set (snd (getInterpreterPathFromPoetry ?S ''/work/proj'' False))"
    by (simp add: sample_lookup sample_poetryPath)
  have b: "fst (invokePoetry ?S ''env info -p'' ''/work/proj'') = Inr (Some ?P)"
    by (simp add: sample_invoke)
  have c: "?P \<noteq> [] \<and> fileExists ?S ?P"
    by (simp add: sample_fileExists)
  have d: "\<forall>q. fst (getInterpreterPathFromPoetry ?S ''/work/other'' False) \<noteq> Inr (Some q)"
    by (simp add: sample_lookup_elsewhere)
  have e: "poetryPath ?S = ''poetry''"
    by (simp add: sample_poetryPath)
  from getInterpreterPathFromPoetry_defined_iff [of ?S "''/work/proj''" False ?P] a b c
  have first: "fst (getInterpreterPathFromPoetry ?S ''/work/proj'' False) = Inr (Some ?P)"
    by blast
  from getInterpreterPathFromPoetry_defined_iff [of ?S "''/work/other''" False ?P] d
  have second: "fst (getInterpreterPathFromPoetry ?S ''/work/other'' False) = Inr None"
    by blast
  from a b c d e first second show ?thesis by simp
qed

text \<open>
  C2. When the executable is run in a lookup and fails (\<open>exec\<close> rejects with \<open>error\<close>, or
  its result has text on stderr and none on stdout, which becomes the error), the error
  is caught inside the service: the lookup logs it, shows the user one message of kind
  \<open>warning\<close>, has no other effect, and resolves to \<open>undefined\<close>, whatever \<open>ignoreErrors\<close> is.
\<close>

theorem invocation_failure_is_warning:
  assumes "processServiceFactoryCreate sv cwd = Inr ps"
    and "ExecCall (poetryPath sv) [''env'', ''info'', ''-p''] cwd
           \<in> set (snd (getInterpreterPathFromPoetry sv cwd ignoreErrors))"
    and "exec ps (poetryPath sv) [''env'', ''info'', ''-p''] cwd = Inl error
         \<or> (exec ps (poetryPath sv) [''env'', ''info'', ''-p''] cwd = Inr (Some r)
             \<and> stderr r = Some s \<and> trim s \<noteq> [] \<and> trim (stdout r) = []
             \<and> error = ErrorObj ''Error'' (trim s))"
  shows "getInterpreterPathFromPoetry sv cwd ignoreErrors =
           (Inr None,
            [FileExistsCall (pathJoin sv [cwd, ''poetry.lock'']),
             ProcessServiceCreate cwd,
             ExecCall (poetryPath sv) [''env'', ''info'', ''-p''] cwd,
             LogWarning ''Error in invoking Poetry'' (Some error),
             LogWarning (''Relevant Environment Variables '' @ environmentVariables sv) None,
             ShowMessage (invokeFailedMessage error) ''warning''])"
proof -
  have lock: "fileExists sv (pathJoin sv [cwd, ''poetry.lock''])"
  proof (rule ccontr)
    assume "\<not> fileExists sv (pathJoin sv [cwd, ''poetry.lock''])"
    with assms(2) show False by (simp add: lookup_unlocked)
  qed
  show ?thesis
    by (simp add: lookup_locked [OF lock] invokePoetry_failure [OF assms(1) assms(3)])
qed

theorem invocation_failure_is_warning_witness:
  "getInterpreterPathFromPoetry (sampleServices missingProcess) ''/work/proj'' True =
     (Inr None,
      [FileExistsCall ''/work/proj/poetry.lock'',
       ProcessServiceCreate ''/work/proj'',
       ExecCall ''poetry'' [''env'', ''info'', ''-p''] ''/work/proj'',
       LogWarning ''Error in invoking Poetry'' (Some (ErrorObj ''Error'' ''spawn poetry ENOENT'')),
       LogWarning ''Relevant Environment Variables {}'' None,
       ShowMessage (invokeFailedMessage (ErrorObj ''Error'' ''spawn poetry ENOENT'')) ''warning''])
   \<and> getInterpreterPathFromPoetry (sampleServices complainingProcess) ''/work/proj'' False =
     (Inr None,
      [FileExistsCall ''/work/proj/poetry.lock'',
       ProcessServiceCreate ''/work/proj'',
       ExecCall ''poetry'' [''env'', ''info'', ''-p''] ''/work/proj'',
       LogWarning ''Error in invoking Poetry'' (Some (ErrorObj ''Error'' ''no pyproject.toml'')),
       LogWarning ''Relevant Environment Variables {}'' None,
       ShowMessage (invokeFailedMessage (ErrorObj ''Error'' ''no pyproject.toml'')) ''warning''])"
proof -
  let ?M = "sampleServices missingProcess"
  let ?C = "sampleServices complainingProcess"
  let ?r = "\<lparr>stdout = [], stderr = Some (''no pyproject.toml'' @ [CHR 0x0A])\<rparr>"
  have m1: "processServiceFactoryCreate ?M ''/work/proj'' = Inr missingProcess"
    by (simp add: sample_create)
  have m2: "ExecCall (poetryPath ?M) [''env'', ''info'', ''-p''] ''/work/proj''
              \<in> set (snd (getInterpreterPathFromPoetry ?M ''/work/proj'' True))"
    by (simp add: sample_lookup_missing sample_poetryPath)
  have m3: "exec missingProcess (poetryPath ?M) [''env'', ''info'', ''-p''] ''/work/proj''
              = Inl (ErrorObj ''Error'' ''spawn poetry ENOENT'')
            \<or> (exec missingProcess (poetryPath ?M) [''env'', ''info'', ''-p''] ''/work/proj''
                  = Inr (Some ?r)
                \<and> stderr ?r = Some [] \<and> trim [] \<noteq> [] \<and> trim (stdout ?r) = []
                \<and> ErrorObj ''Error'' ''spawn poetry ENOENT'' = ErrorObj ''Error'' (trim []))"
    by (simp add: missingProcess_def)
  have c1: "processServiceFactoryCreate ?C ''/work/proj'' = Inr complainingProcess"
    by (simp add: sample_create)
  have c2: "ExecCall (poetryPath ?C) [''env'', ''info'', ''-p''] ''/work/proj''
              \<in> set (snd (getInterpreterPathFromPoetry ?C ''/work/proj'' False))"
    by (simp add: sample_lookup_complaining sample_poetryPath)
  have c3: "exec complainingProcess (poetryPath ?C) [''env'', ''info'', ''-p''] ''/work/proj''
              = Inl (ErrorObj ''Error'' (trim (''no pyproject.toml'' @ [CHR 0x0A])))
            \<or> (exec complainingProcess (poetryPath ?C) [''env'', ''info'', ''-p''] ''/work/proj''
                  = Inr (Some ?r)
                \<and> stderr ?r = Some (''no pyproject.toml'' @ [CHR 0x0A])
                \<and> trim (''no pyproject.toml'' @ [CHR 0x0A]) \<noteq> [] \<and> trim (stdout ?r) = []
                \<and> ErrorObj ''Error'' (trim (''no pyproject.toml'' @ [CHR 0x0A]))
                    = ErrorObj ''Error'' (trim (''no pyproject.toml'' @ [CHR 0x0A])))"
    by (simp add: complainingProcess_def trim_def isWhiteSpace_def)
  have t: "trim (''no pyproject.toml'' @ [CHR 0x0A]) = ''no pyproject.toml''"
    by (simp add: trim_def isWhiteSpace_def)
  note missing = invocation_failure_is_warning [OF m1 m2 m3,
      unfolded sample_poetryPath sample_lock sample_environmentVariables]
  note complaining = invocation_failure_is_warning [OF c1 c2 c3,
      unfolded t sample_poetryPath sample_lock sample_environmentVariables]
  from missing complaining show ?thesis by simp
qed

text \<open>
  C3. In a project directory without a file \<open>poetry.lock\<close> the lookup resolves to
  \<open>undefined\<close> and its only effect is the existence check: no process service is created
  and nothing is executed. In any lookup that does execute something, the lock file
  exists and its check comes before the execution.
\<close>

theorem no_lock_file_no_invocation:
  "(\<not> fileExists sv (pathJoin sv [cwd, ''poetry.lock'']) \<longrightarrow>
      getInterpreterPathFromPoetry sv cwd ignoreErrors =
        (Inr None, [FileExistsCall (pathJoin sv [cwd, ''poetry.lock''])]))
   \<and> (\<forall>pre file args dir post.
        snd (getInterpreterPathFromPoetry sv cwd ignoreErrors)
          = pre @ ExecCall file args dir # post \<longrightarrow>
        fileExists sv (pathJoin sv [cwd, ''poetry.lock''])
        \<and> FileExistsCall (pathJoin sv [cwd, ''poetry.lock'']) \<in> set pre)"
proof (cases "fileExists sv (pathJoin sv [cwd, ''poetry.lock''])")
  case False
  then show ?thesis by (auto simp: lookup_unlocked Cons_eq_append_conv)
next
  case True
  have "\<exists>t. snd (getInterpreterPathFromPoetry sv cwd ignoreErrors) =
          FileExistsCall (pathJoin sv [cwd, ''poetry.lock'']) # t"
    by (simp add: lookup_locked [OF True] split: sum.splits option.splits)
  then obtain t where t: "snd (getInterpreterPathFromPoetry sv cwd ignoreErrors) =
          FileExistsCall (pathJoin sv [cwd, ''poetry.lock'']) # t" ..
  show ?thesis using True by (auto simp: t Cons_eq_append_conv)
qed

theorem no_lock_file_no_invocation_witness:
  "\<not> fileExists (sampleServices answeringProcess) ''/work/other/poetry.lock''
   \<and> getInterpreterPathFromPoetry (sampleServices answeringProcess) ''/work/other'' False =
       (Inr None, [FileExistsCall ''/work/other/poetry.lock''])
   \<and> snd (getInterpreterPathFromPoetry (sampleServices answeringProcess) ''/work/proj'' False) =
       [FileExistsCall ''/work/proj/poetry.lock'', ProcessServiceCreate ''/work/proj'']
         @ ExecCall ''poetry'' [''env'', ''info'', ''-p''] ''/work/proj''
         # [LogWarning ''/venvs/proj-x1-py3.8/bin/python'' None,
            FileExistsCall ''/venvs/proj-x1-py3.8/bin/python'']
   \<and> fileExists (sampleServices answeringProcess) ''/work/proj/poetry.lock''
   \<and> FileExistsCall ''/work/proj/poetry.lock''
       \<in> set [FileExistsCall ''/work/proj/poetry.lock'', ProcessServiceCreate ''/work/proj'']"
proof -
  let ?S = "sampleServices answeringProcess"
  have a: "\<not> fileExists ?S (pathJoin ?S [''/work/other'', ''poetry.lock''])"
    by (simp add: sample_lock sample_fileExists)
  have b: "snd (getInterpreterPathFromPoetry ?S ''/work/proj'' False) =
       [FileExistsCall ''/work/proj/poetry.lock'', ProcessServiceCreate ''/work/proj'']
         @ ExecCall ''poetry'' [''env'', ''info'', ''-p''] ''/work/proj''
         # [LogWarning ''/venvs/proj-x1-py3.8/bin/python'' None,
            FileExistsCall ''/venvs/proj-x1-py3.8/bin/python'']"
    by (simp add: sample_lookup)
  from no_lock_file_no_invocation [of ?S "''/work/other''" False] a
  have first: "getInterpreterPathFromPoetry ?S ''/work/other'' False =
       (Inr None, [FileExistsCall (pathJoin ?S [''/work/other'', ''poetry.lock''])])"
    by blast
  from no_lock_file_no_invocation [of ?S "''/work/proj''" False] b
  have second: "fileExists ?S (pathJoin ?S [''/work/proj'', ''poetry.lock''])
     \<and> FileExistsCall (pathJoin ?S [''/work/proj'', ''poetry.lock''])
         \<in> set [FileExistsCall ''/work/proj/poetry.lock'', ProcessServiceCreate ''/work/proj'']"
    by blast
  from a b first second show ?thesis by (simp add: sample_lock)
qed

text \<open>
  C6. A result of the executable whose trimmed stderr is not empty while its trimmed
  stdout is empty is a failure: \<open>invokePoetry\<close> builds no path from it; it logs the error
  \<open>new Error(stderr)\<close>, warns the user and resolves to \<open>undefined\<close>.
\<close>

theorem invokePoetry_stderr_only_fails:
  assumes "processServiceFactoryCreate sv rootPath = Inr ps"
    and "exec ps (poetryPath sv) [''env'', ''info'', ''-p''] rootPath = Inr (Some result)"
    and "stderr result = Some s"
    and "trim s \<noteq> []"
    and "trim (stdout result) = []"
  shows "invokePoetry sv arg rootPath =
           (Inr None,
            [ProcessServiceCreate rootPath,
             ExecCall (poetryPath sv) [''env'', ''info'', ''-p''] rootPath,
             LogWarning ''Error in invoking Poetry'' (Some (ErrorObj ''Error'' (trim s))),
             LogWarning (''Relevant Environment Variables '' @ environmentVariables sv) None,
             ShowMessage (invokeFailedMessage (ErrorObj ''Error'' (trim s))) ''warning''])"
  using assms
  by (auto simp: invokePoetry_def invokePoetry_try_def executable_def Let_def trim_Nil)

theorem invokePoetry_stderr_only_fails_witness:
  "trim (''no pyproject.toml'' @ [CHR 0x0A]) \<noteq> [] \<and> trim [] = []
   \<and> invokePoetry (sampleServices complainingProcess) ''env info -p'' ''/work/proj'' =
       (Inr None,
        [ProcessServiceCreate ''/work/proj'',
         ExecCall ''poetry'' [''env'', ''info'', ''-p''] ''/work/proj'',
         LogWarning ''Error in invoking Poetry'' (Some (ErrorObj ''Error'' ''no pyproject.toml'')),
         LogWarning ''Relevant Environment Variables {}'' None,
         ShowMessage (invokeFailedMessage (ErrorObj ''Error'' ''no pyproject.toml'')) ''warning''])"
proof -
  let ?C = "sampleServices complainingProcess"
  let ?r = "\<lparr>stdout = [], stderr = Some (''no pyproject.toml'' @ [CHR 0x0A])\<rparr>"
  have t: "trim (''no pyproject.toml'' @ [CHR 0x0A]) = ''no pyproject.toml''"
    by (simp add: trim_def isWhiteSpace_def)
  have c1: "processServiceFactoryCreate ?C ''/work/proj'' = Inr complainingProcess"
    by (simp add: sample_create)
  have c2: "exec complainingProcess (poetryPath ?C) [''env'', ''info'', ''-p''] ''/work/proj''
              = Inr (Some ?r)"
    by (simp add: complainingProcess_def)
  have c3: "stderr ?r = Some (''no pyproject.toml'' @ [CHR 0x0A])"
    by simp
  have c4: "trim (''no pyproject.toml'' @ [CHR 0x0A]) \<noteq> []"
    unfolding t by simp
  have c5: "trim (stdout ?r) = []"
    by (simp add: trim_Nil)
  note r = invokePoetry_stderr_only_fails [OF c1 c2 c3 c4 c5, of "''env info -p''",
      unfolded t sample_poetryPath sample_environmentVariables]
  from r c4 show ?thesis by (simp add: trim_Nil)
qed

text \<open>
  C7. One lookup runs the executable at most once, and shows the user at most one
  message: nothing is tried again after a failure.
\<close>

theorem lookup_invokes_at_most_once:
  "length (filter isExecCall (snd (getInterpreterPathFromPoetry sv cwd ignoreErrors))) \<le> 1
   \<and> length (filter isShowMessage (snd (getInterpreterPathFromPoetry sv cwd ignoreErrors))) \<le> 1"
proof (cases "fileExists sv (pathJoin sv [cwd, ''poetry.lock''])")
  case False
  then show ?thesis by (simp add: lookup_unlocked)
next
  case True
  show ?thesis
    using invokePoetry_exec_count [of sv "''env info -p''" cwd]
          invokePoetry_show_count [of sv "''env info -p''" cwd]
    by (auto simp: lookup_locked [OF True] split: sum.splits option.splits if_splits)
qed

theorem lookup_invokes_at_most_once_witness:
  "length (filter isExecCall
     (snd (getInterpreterPathFromPoetry (sampleServices missingProcess) ''/work/proj'' False))) \<le> 1
   \<and> length (filter isShowMessage
     (snd (getInterpreterPathFromPoetry (sampleServices missingProcess) ''/work/proj'' False))) \<le> 1
   \<and> filter isExecCall
     (snd (getInterpreterPathFromPoetry (sampleServices missingProcess) ''/work/proj'' False))
       = [ExecCall ''poetry'' [''env'', ''info'', ''-p''] ''/work/proj'']"
  using lookup_invokes_at_most_once [of "sampleServices missingProcess" "''/work/proj''" False]
  by (simp add: sample_lookup_missing)

section \<open>The interpreters found\<close>

text \<open>
  C5. The record that \<open>getInterpreterFromPoetry\<close> builds has the resolved interpreter path
  as its path, \<open>Poetry\<close> as its type and the working directory as its
  \<open>poetryWorkspaceFolder\<close> (the rest is what the helper reported); and no record is built
  when the path lookup or the helper yields nothing.
\<close>

theorem getInterpreterFromPoetry_record:
  "(fst (getInterpreterFromPoetry sv poetryCwd) = Inr (Some i) \<longrightarrow>
      (\<exists>p details.
          fst (getInterpreterPathFromPoetry sv poetryCwd False) = Inr (Some p)
          \<and> getInterpreterInformation sv p = Inr (Some details)
          \<and> path i = Some p \<and> version i = version details)
      \<and> type i = Some Poetry
      \<and> poetryWorkspaceFolder i = Some poetryCwd)
   \<and> (fst (getInterpreterPathFromPoetry sv poetryCwd False) = Inr None \<longrightarrow>
        fst (getInterpreterFromPoetry sv poetryCwd) = Inr None)
   \<and> (fst (getInterpreterPathFromPoetry sv poetryCwd False) = Inr (Some q)
        \<and> getInterpreterInformation sv q = Inr None \<longrightarrow>
        fst (getInterpreterFromPoetry sv poetryCwd) = Inr None)"
  by (auto simp: getInterpreterFromPoetry_def
           split: prod.splits sum.splits option.splits if_splits)

theorem getInterpreterFromPoetry_record_witness:
  "(\<exists>i. fst (getInterpreterFromPoetry (sampleServices answeringProcess) ''/work/proj'') = Inr (Some i)
        \<and> path i = Some ''/venvs/proj-x1-py3.8/bin/python''
        \<and> type i = Some Poetry
        \<and> poetryWorkspaceFolder i = Some ''/work/proj'')
   \<and> fst (getInterpreterPathFromPoetry (sampleServices answeringProcess) ''/work/other'' False)
       = Inr None
   \<and> fst (getInterpreterFromPoetry (sampleServices answeringProcess) ''/work/other'') = Inr None
   \<and> fst (getInterpreterPathFromPoetry uninformedServices ''/work/proj'' False)
       = Inr (Some ''/venvs/proj-x1-py3.8/bin/python'')
   \<and> getInterpreterInformation uninformedServices ''/venvs/proj-x1-py3.8/bin/python'' = Inr None
   \<and> fst (getInterpreterFromPoetry uninformedServices ''/work/proj'') = Inr None"
proof -
  let ?S = "sampleServices answeringProcess"
  let ?i = "\<lparr>path = Some ''/venvs/proj-x1-py3.8/bin/python'', type = Some Poetry,
             version = Some ''3.8.2'', poetryWorkspaceFolder = Some ''/work/proj''\<rparr>"
  have u: "fst (getInterpreterPathFromPoetry uninformedServices ''/work/proj'' False)
             = Inr (Some ''/venvs/proj-x1-py3.8/bin/python'')
           \<and> getInterpreterInformation uninformedServices ''/venvs/proj-x1-py3.8/bin/python''
               = Inr None"
    by (simp add: sample_uninformed_lookup sample_lookup sample_uninformed_information)
  note third = getInterpreterFromPoetry_record
      [where sv = uninformedServices and poetryCwd = "''/work/proj''" and i = ?i
         and q = "''/venvs/proj-x1-py3.8/bin/python''",
       THEN conjunct2, THEN conjunct2, THEN mp, OF u]
  have a: "fst (getInterpreterFromPoetry ?S ''/work/proj'') = Inr (Some ?i)"
    by (simp add: sample_interpreter)
  have b: "fst (getInterpreterPathFromPoetry ?S ''/work/other'' False) = Inr None"
    by (simp add: sample_lookup_elsewhere)
  have p: "fst (getInterpreterPathFromPoetry ?S ''/work/proj'' False)
             = Inr (Some ''/venvs/proj-x1-py3.8/bin/python'')"
    by (simp add: sample_lookup)
  from getInterpreterFromPoetry_record [of ?S "''/work/proj''" ?i] a p
  have first: "path ?i = Some ''/venvs/proj-x1-py3.8/bin/python'' \<and> type ?i = Some Poetry
                \<and> poetryWorkspaceFolder ?i = Some ''/work/proj''"
    by auto
  from getInterpreterFromPoetry_record [of ?S "''/work/other''"] b
  have second: "fst (getInterpreterFromPoetry ?S ''/work/other'') = Inr None"
    by blast
  from a first second b u third show ?thesis by blast
qed

text \<open>
  C8. \<open>getInterpretersImplementation\<close> always resolves, to a list of at most one
  interpreter: the empty list when there is no working directory, when the detection
  rejects, and when it finds nothing; the list of the one interpreter it finds otherwise.
\<close>

theorem getInterpretersImplementation_resolves:
  "(\<exists>xs. fst (getInterpretersImplementation sv resource) = Inr xs \<and> length xs \<le> 1)
   \<and> (\<not> truthy (getPoetryWorkingDirectory sv resource) \<longrightarrow>
        getInterpretersImplementation sv resource = (Inr [], []))
   \<and> (getPoetryWorkingDirectory sv resource = Some poetryCwd \<and> poetryCwd \<noteq> [] \<longrightarrow>
        (fst (getInterpreterFromPoetry sv poetryCwd) = Inl error \<longrightarrow>
           fst (getInterpretersImplementation sv resource) = Inr [])
        \<and> (fst (getInterpreterFromPoetry sv poetryCwd) = Inr None \<longrightarrow>
           fst (getInterpretersImplementation sv resource) = Inr [])
        \<and> (fst (getInterpreterFromPoetry sv poetryCwd) = Inr (Some i) \<longrightarrow>
           fst (getInterpretersImplementation sv resource) = Inr [i]))"
  by (cases "getPoetryWorkingDirectory sv resource")
     (auto simp: getInterpretersImplementation_def
           split: prod.splits sum.splits option.splits if_splits)

theorem getInterpretersImplementation_resolves_witness:
  "getInterpretersImplementation homelessServices None = (Inr [], [])
   \<and> fst (getInterpreterFromPoetry helplessServices ''/work/proj'')
       = Inl (ErrorObj ''Error'' ''python exited with code 1'')
   \<and> fst (getInterpretersImplementation helplessServices None) = Inr []
   \<and> fst (getInterpreterFromPoetry (sampleServices complainingProcess) ''/work/proj'') = Inr None
   \<and> fst (getInterpretersImplementation (sampleServices complainingProcess) None) = Inr []
   \<and> fst (getInterpretersImplementation (sampleServices answeringProcess) None) =
       Inr [\<lparr>path = Some ''/venvs/proj-x1-py3.8/bin/python'', type = Some Poetry,
             version = Some ''3.8.2'', poetryWorkspaceFolder = Some ''/work/proj''\<rparr>]"
proof -
  let ?S = "sampleServices answeringProcess"
  let ?i = "\<lparr>path = Some ''/venvs/proj-x1-py3.8/bin/python'', type = Some Poetry,
             version = Some ''3.8.2'', poetryWorkspaceFolder = Some ''/work/proj''\<rparr>"
  let ?e = "ErrorObj ''Error'' ''python exited with code 1''"
  have a: "\<not> truthy (getPoetryWorkingDirectory homelessServices None)"
    by (simp add: sample_homeless_workingDirectory)
  have b: "getPoetryWorkingDirectory helplessServices None = Some ''/work/proj''
           \<and> ''/work/proj'' \<noteq> []"
    by (simp add: sample_helpless_workingDirectory)
  have c: "fst (getInterpreterFromPoetry helplessServices ''/work/proj'') = Inl ?e"
    by (rule sample_helpless)
  have d: "getPoetryWorkingDirectory ?S None = Some ''/work/proj'' \<and> ''/work/proj'' \<noteq> []"
    by (simp add: sample_workingDirectory)
  have e: "fst (getInterpreterFromPoetry ?S ''/work/proj'') = Inr (Some ?i)"
    by (simp add: sample_interpreter)
  from getInterpretersImplementation_resolves
         [where sv = homelessServices and resource = None and poetryCwd = "[]"
            and error = ?e and i = ?i] a
  have first: "getInterpretersImplementation homelessServices None = (Inr [], [])"
    by simp
  from getInterpretersImplementation_resolves
         [where sv = helplessServices and resource = None and poetryCwd = "''/work/proj''"
            and error = ?e and i = ?i] b c
  have second: "fst (getInterpretersImplementation helplessServices None) = Inr []"
    by simp
  from getInterpretersImplementation_resolves
         [where sv = ?S and resource = None and poetryCwd = "''/work/proj''"
            and error = ?e and i = ?i] d e
  have third: "fst (getInterpretersImplementation ?S None) = Inr [?i]"
    by simp
  have f: "getPoetryWorkingDirectory (sampleServices complainingProcess) None
             = Some ''/work/proj'' \<and> ''/work/proj'' \<noteq> []"
    by (simp add: sample_workingDirectory)
  have g: "fst (getInterpreterFromPoetry (sampleServices complainingProcess) ''/work/proj'')
             = Inr None"
    by (rule sample_interpreter_complaining)
  from getInterpretersImplementation_resolves
         [where sv = "sampleServices complainingProcess" and resource = None
            and poetryCwd = "''/work/proj''" and error = ?e and i = ?i] f g
  have fourth: "fst (getInterpretersImplementation (sampleServices complainingProcess) None)
                  = Inr []"
    by simp
  from first second third fourth c g show ?thesis by simp
qed

text \<open>
  C10. When the interpreter path does not contain the path separator, the base name of
  the directory and a hyphen, in this order and next to each other,
  \<open>isRelatedPoetryEnvironment\<close> answers \<open>false\<close> with no effect at all, so without running
  poetry. When it answers \<open>true\<close>, the path contains that text and the path lookup for
  the directory resolved to a path.
\<close>

theorem isRelatedPoetryEnvironment_prefix_gate:
  "(\<not> sublist (pathSep sv @ pathBasename sv dir @ ''-'') pythonPath \<longrightarrow>
      isRelatedPoetryEnvironment sv dir pythonPath = (Inr False, []))
   \<and> (fst (isRelatedPoetryEnvironment sv dir pythonPath) = Inr True \<longrightarrow>
        sublist (pathSep sv @ pathBasename sv dir @ ''-'') pythonPath
        \<and> (\<exists>p. p \<noteq> [] \<and> fst (getInterpreterPathFromPoetry sv dir True) = Inr (Some p)))"
  by (auto simp: isRelatedPoetryEnvironment_def indexOf_sublist truthy_iff
           split: prod.splits sum.splits if_splits)

theorem isRelatedPoetryEnvironment_prefix_gate_witness:
  "\<not> sublist ''/proj-'' ''/usr/bin/python''
   \<and> isRelatedPoetryEnvironment (sampleServices answeringProcess) ''/work/proj''
         ''/usr/bin/python'' = (Inr False, [])
   \<and> fst (isRelatedPoetryEnvironment (sampleServices answeringProcess) ''/work/proj''
         ''/venvs/proj-x1-py3.8/bin/python'') = Inr True
   \<and> sublist ''/proj-'' ''/venvs/proj-x1-py3.8/bin/python''"
proof -
  let ?S = "sampleServices answeringProcess"
  have a: "\<not> sublist (pathSep ?S @ pathBasename ?S ''/work/proj'' @ ''-'') ''/usr/bin/python''"
    unfolding sample_related_text indexOf_sublist [symmetric] by (simp add: sample_indexOf)
  have b: "fst (isRelatedPoetryEnvironment ?S ''/work/proj'' ''/venvs/proj-x1-py3.8/bin/python'')
             = Inr True"
    by (simp add: isRelatedPoetryEnvironment_def sample_related_text sample_indexOf sample_lookup)
  note gate = isRelatedPoetryEnvironment_prefix_gate [where sv = ?S and dir = "''/work/proj''"]
  from gate [where pythonPath = "''/usr/bin/python''", THEN conjunct1, THEN mp, OF a]
  have first: "isRelatedPoetryEnvironment ?S ''/work/proj'' ''/usr/bin/python'' = (Inr False, [])" .
  from gate [where pythonPath = "''/venvs/proj-x1-py3.8/bin/python''",
             THEN conjunct2, THEN mp, OF b, THEN conjunct1]
  have second: "sublist (pathSep ?S @ pathBasename ?S ''/work/proj'' @ ''-'')
                  ''/venvs/proj-x1-py3.8/bin/python''" .
  from a b first second show ?thesis by (simp add: sample_related_text)
qed

section \<open>The activation commands\<close>

text \<open>
  C4. When the active interpreter of a resource (for \<open>getActivationCommandsForInterpreter\<close>:
  the details of the interpreter) has type \<open>Poetry\<close>, the provider returns a list of
  exactly one command: the configured poetry executable, as \<open>fileToCommandArgument\<close>
  writes it, followed by \<open>shell\<close> after a space. For an interpreter of another type, and
  when none is found, it returns \<open>undefined\<close>.
\<close>

theorem getActivationCommands_poetry_shell:
  "(getActiveInterpreter pr resource = Inr (Some i) \<and> type i = Some Poetry \<longrightarrow>
      getActivationCommands pr resource sh =
        Inr (Some [fileToCommandArgument pr (poetryPath (poetryService pr)) @ '' shell'']))
   \<and> (getActiveInterpreter pr resource = Inr (Some i) \<and> type i \<noteq> Some Poetry \<longrightarrow>
        getActivationCommands pr resource sh = Inr None)
   \<and> (getActiveInterpreter pr resource = Inr None \<longrightarrow>
        getActivationCommands pr resource sh = Inr None)
   \<and> (getInterpreterDetails pr pythonPath = Inr (Some j) \<and> type j = Some Poetry \<longrightarrow>
        getActivationCommandsForInterpreter pr pythonPath sh =
          Inr (Some [fileToCommandArgument pr (poetryPath (poetryService pr)) @ '' shell'']))
   \<and> (getInterpreterDetails pr pythonPath = Inr (Some j) \<and> type j \<noteq> Some Poetry \<longrightarrow>
        getActivationCommandsForInterpreter pr pythonPath sh = Inr None)
   \<and> (getInterpreterDetails pr pythonPath = Inr None \<longrightarrow>
        getActivationCommandsForInterpreter pr pythonPath sh = Inr None)"
  by (simp add: getActivationCommands_def getActivationCommandsForInterpreter_def executable_def)

theorem getActivationCommands_poetry_shell_witness:
  "getActivationCommands sampleProvider None () = Inr (Some [''poetry shell''])
   \<and> getActivationCommands sampleProvider (Some (Uri ''file:///tmp/a.py'')) () = Inr None
   \<and> getActivationCommands sampleProvider (Some (Uri ''file:///usr/lib/a.py'')) () = Inr None
   \<and> getActivationCommandsForInterpreter sampleProvider ''/venvs/proj-x1-py3.8/bin/python'' ()
       = Inr (Some [''poetry shell''])
   \<and> getActivationCommandsForInterpreter sampleProvider ''/usr/bin/python'' () = Inr None
   \<and> getActivationCommandsForInterpreter sampleProvider ''/opt/python'' () = Inr None"
proof -
  let ?poetry = "sampleInformation\<lparr>type := Some Poetry\<rparr>"
  let ?other = "sampleInformation\<lparr>type := Some (OtherType 0)\<rparr>"
  have a: "getActiveInterpreter sampleProvider None = Inr (Some ?poetry)
           \<and> type ?poetry = Some Poetry"
    by (simp add: sampleProvider_def)
  have b: "getActiveInterpreter sampleProvider (Some (Uri ''file:///tmp/a.py'')) = Inr None"
    by (simp add: sampleProvider_def)
  have c: "getInterpreterDetails sampleProvider ''/venvs/proj-x1-py3.8/bin/python''
             = Inr (Some ?poetry) \<and> type ?poetry = Some Poetry"
    by (simp add: sampleProvider_def)
  have d: "getInterpreterDetails sampleProvider ''/usr/bin/python'' = Inr (Some ?other)
           \<and> type ?other \<noteq> Some Poetry"
    by (simp add: sampleProvider_def)
  have e: "fileToCommandArgument sampleProvider (poetryPath (poetryService sampleProvider))
             @ '' shell'' = ''poetry shell''"
    by (simp add: sampleProvider_def sample_poetryPath)
  note cmds = getActivationCommands_poetry_shell [where pr = sampleProvider and sh = "()"]
  from cmds [where resource = None and i = ?poetry
               and pythonPath = "''/usr/bin/python''" and j = ?other] a
  have first: "getActivationCommands sampleProvider None () =
      Inr (Some [fileToCommandArgument sampleProvider (poetryPath (poetryService sampleProvider))
                   @ '' shell''])"
    by simp
  from cmds [where resource = "Some (Uri ''file:///tmp/a.py'')" and i = ?poetry
               and pythonPath = "''/usr/bin/python''" and j = ?other] b
  have second: "getActivationCommands sampleProvider (Some (Uri ''file:///tmp/a.py'')) () = Inr None"
    by simp
  from cmds [where resource = None and i = ?poetry
               and pythonPath = "''/venvs/proj-x1-py3.8/bin/python''" and j = ?poetry] c
  have third: "getActivationCommandsForInterpreter sampleProvider
        ''/venvs/proj-x1-py3.8/bin/python'' () =
      Inr (Some [fileToCommandArgument sampleProvider (poetryPath (poetryService sampleProvider))
                   @ '' shell''])"
    by simp
  from cmds [where resource = None and i = ?poetry
               and pythonPath = "''/usr/bin/python''" and j = ?other] d
  have fourth: "getActivationCommandsForInterpreter sampleProvider ''/usr/bin/python'' () = Inr None"
    by simp
  have f: "getActiveInterpreter sampleProvider (Some (Uri ''file:///usr/lib/a.py''))
             = Inr (Some ?other) \<and> type ?other \<noteq> Some Poetry"
    by (simp add: sampleProvider_def)
  have g: "getInterpreterDetails sampleProvider ''/opt/python'' = Inr None"
    by (simp add: sampleProvider_def)
  from cmds [where resource = "Some (Uri ''file:///usr/lib/a.py'')" and i = ?other
               and pythonPath = "''/usr/bin/python''" and j = ?other] f
  have fifth: "getActivationCommands sampleProvider (Some (Uri ''file:///usr/lib/a.py'')) ()
                 = Inr None"
    by simp
  from cmds [where resource = None and i = ?poetry
               and pythonPath = "''/opt/python''" and j = ?other] g
  have sixth: "getActivationCommandsForInterpreter sampleProvider ''/opt/python'' () = Inr None"
    by simp
  from first second third fourth fifth sixth show ?thesis by (simp only: e)
qed

text \<open>
  C9. \<open>isShellSupported\<close> answers \<open>false\<close> for every shell, although for the same shell
  \<open>getActivationCommands\<close> of a provider can return a command.
\<close>

theorem isShellSupported_false:
  "isShellSupported pr targetShell = False
   \<and> (\<exists>pr' resource command.
        getActivationCommands pr' resource targetShell = Inr (Some [command])
        \<and> isShellSupported pr' targetShell = False)"
proof -
  have "getActivationCommands sampleProvider None targetShell = Inr (Some [''poetry shell''])"
    by (simp add: getActivationCommands_def sampleProvider_def sample_poetryPath
                  sampleInformation_def executable_def)
  then show ?thesis by (auto simp: isShellSupported_def)
qed

theorem isShellSupported_false_witness:
  "isShellSupported sampleProvider () = False
   \<and> getActivationCommands sampleProvider None () = Inr (Some [''poetry shell''])"
proof -
  have "getActivationCommands sampleProvider None () = Inr (Some [''poetry shell''])"
    by (simp add: getActivationCommands_def sampleProvider_def sample_poetryPath
                  sampleInformation_def executable_def)
  with isShellSupported_false [of sampleProvider "()"] show ?thesis by simp
qed

end
